theory Spec2Isabelle
  imports Main
begin

section \<open>Data model\<close>

text \<open>
  The shapes of \<open>customTypes\<close> as the sources use them. \<open>IndexItem\<close> of the server and
  \<open>DocumentationIndexItem\<close> of the frontend are the same JSON shape. The fields
  \<open>id\<close> and \<open>category\<close> of a recommended item are renamed \<open>item_id\<close> and
  \<open>item_category\<close>, and the fields of a folder item carry the prefix \<open>folder_\<close>,
  because a field name is a constant of the theory.
\<close>

record index_item =
  category :: string
  children :: "string list"

record recommended_item =
  item_id :: int
  title :: string
  anchor :: string
  item_category :: string
  page :: string
  time :: int
  icon :: string

record folder_item =
  folder_category :: string
  folder_icon :: string
  folder_name :: string

record documentation_index_response =
  index :: "index_item list"

record documentation_categories_response =
  categories :: "folder_item list"

record recommended_items_response =
  recommended_items :: "recommended_item list"

text \<open>The JSON object of the compound refresh endpoint, read by the store as \<open>data.docIndex\<close> etc.\<close>

record refresh_response =
  data_docIndex :: "index_item list"
  data_guideIndex :: "index_item list"
  data_recommendedDocItems :: "recommended_item list"
  data_recommendedGuideItems :: "recommended_item list"

section \<open>Frontend documentation store\<close>

text \<open>
  The state of \<open>useDocumentationStore\<close>. Persistence through local and session storage
  is not modelled: the record is the value the actions read and assign.
\<close>

record store =
  docIndex :: "index_item list"
  guideIndex :: "index_item list"
  recommendedDocItems :: "recommended_item list"
  recommendedGuideItems :: "recommended_item list"
  version :: string
  language :: string

text \<open>
  A fetch helper resolves to data or to a boolean; the store tests
  \<open>typeof data === "boolean"\<close>.
\<close>

datatype 'a fetched = Sentinel bool | Data 'a

text \<open>
  The three helpers the store imports from \<open>utils/fetch\<close>, as the store calls them.
  They are the network, so they are parameters of every action that awaits one.
\<close>

record fetch_module =
  index_helper :: "string \<Rightarrow> string \<Rightarrow> string \<Rightarrow> documentation_index_response fetched"
  recommended_helper :: "string \<Rightarrow> string \<Rightarrow> recommended_items_response fetched"
  refresh_helper :: "string \<Rightarrow> string \<Rightarrow> refresh_response fetched"

text \<open>The helper calls an action makes, in order, with their arguments.\<close>

datatype request =
  IndexFetch string string string
  | RecommendedFetch string string
  | RefreshFetch string string

text \<open>What an action leaves behind: its return value, the store, the helper calls made.\<close>

record 'a action_result =
  returned :: 'a
  store_after :: store
  fetches :: "request list"

text \<open>
  The local \<open>convertedType\<close>: a key of the state, \<open>"docIndex"\<close> unless the type is
  exactly \<open>"Guide"\<close>.
\<close>

datatype index_key = DocIndexKey | GuideIndexKey

datatype recommended_key = RecommendedDocItemsKey | RecommendedGuideItemsKey

definition convertIndexType :: "string \<Rightarrow> index_key" where
  "convertIndexType type = (if type = ''Guide'' then GuideIndexKey else DocIndexKey)"

definition convertRecommendedType :: "string \<Rightarrow> recommended_key" where
  "convertRecommendedType type =
     (if type = ''Guide'' then RecommendedGuideItemsKey else RecommendedDocItemsKey)"

text \<open>Reading and assigning \<open>this[convertedType]\<close>.\<close>

fun index_slot :: "store \<Rightarrow> index_key \<Rightarrow> index_item list" where
  "index_slot s DocIndexKey = docIndex s"
| "index_slot s GuideIndexKey = guideIndex s"

fun set_index_slot :: "store \<Rightarrow> index_key \<Rightarrow> index_item list \<Rightarrow> store" where
  "set_index_slot s DocIndexKey v = s\<lparr>docIndex := v\<rparr>"
| "set_index_slot s GuideIndexKey v = s\<lparr>guideIndex := v\<rparr>"

fun recommended_slot :: "store \<Rightarrow> recommended_key \<Rightarrow> recommended_item list" where
  "recommended_slot s RecommendedDocItemsKey = recommendedDocItems s"
| "recommended_slot s RecommendedGuideItemsKey = recommendedGuideItems s"

fun set_recommended_slot ::
  "store \<Rightarrow> recommended_key \<Rightarrow> recommended_item list \<Rightarrow> store" where
  "set_recommended_slot s RecommendedDocItemsKey v = s\<lparr>recommendedDocItems := v\<rparr>"
| "set_recommended_slot s RecommendedGuideItemsKey v = s\<lparr>recommendedGuideItems := v\<rparr>"

definition setVersion :: "string \<Rightarrow> store \<Rightarrow> store" where
  "setVersion newVersion s =
     (if newVersion \<notin> set [''v1''] then s else s\<lparr>version := newVersion\<rparr>)"

definition setLanguage :: "string \<Rightarrow> store \<Rightarrow> store" where
  "setLanguage newLanguage s =
     (if newLanguage \<notin> set [''en-US''] then s else s\<lparr>language := newLanguage\<rparr>)"

definition getIndex ::
  "fetch_module \<Rightarrow> bool \<Rightarrow> string \<Rightarrow> store \<Rightarrow> index_item list action_result" where
  "getIndex net force type s =
     (let convertedType = convertIndexType type in
      if length (index_slot s convertedType) = 0 \<or> force then
        (case index_helper net (version s) (language s) type of
           Sentinel b \<Rightarrow>
             \<lparr>returned = index_slot s convertedType, store_after = s,
              fetches = [IndexFetch (version s) (language s) type]\<rparr>
         | Data d \<Rightarrow>
             \<lparr>returned = index d, store_after = set_index_slot s convertedType (index d),
              fetches = [IndexFetch (version s) (language s) type]\<rparr>)
      else \<lparr>returned = index_slot s convertedType, store_after = s, fetches = []\<rparr>)"

definition getRecommendedItems ::
  "fetch_module \<Rightarrow> bool \<Rightarrow> string \<Rightarrow> store \<Rightarrow> recommended_item list action_result" where
  "getRecommendedItems net force type s =
     (let convertedType = convertRecommendedType type in
      if length (recommended_slot s convertedType) = 0 \<or> force then
        (case recommended_helper net (language s) type of
           Sentinel b \<Rightarrow>
             \<lparr>returned = recommended_slot s convertedType, store_after = s,
              fetches = [RecommendedFetch (language s) type]\<rparr>
         | Data d \<Rightarrow>
             \<lparr>returned = recommended_items d,
              store_after = set_recommended_slot s convertedType (recommended_items d),
              fetches = [RecommendedFetch (language s) type]\<rparr>)
      else \<lparr>returned = recommended_slot s convertedType, store_after = s, fetches = []\<rparr>)"

text \<open>
  An argument of type \<open>string | undefined\<close> is a \<open>string option\<close>. \<open>!folder\<close> holds of
  \<open>undefined\<close> and of the empty string.
\<close>

definition falsy :: "string option \<Rightarrow> bool" where
  "falsy x = (case x of None \<Rightarrow> True | Some v \<Rightarrow> v = [])"

text \<open>\<open>xs[0]\<close> of JavaScript: \<open>undefined\<close> on the empty array.\<close>

definition first_element :: "'a list \<Rightarrow> 'a option" where
  "first_element xs = (case xs of [] \<Rightarrow> None | x # _ \<Rightarrow> Some x)"

definition validateFolder :: "store \<Rightarrow> string option \<Rightarrow> string \<Rightarrow> index_item option" where
  "validateFolder s folder type =
     (let convertedType = convertIndexType type in
      if falsy folder then None
      else first_element
             (filter (\<lambda>indexItem. Some (category indexItem) = folder)
                (index_slot s convertedType)))"

definition validatePage :: "store \<Rightarrow> string option \<Rightarrow> string option \<Rightarrow> string \<Rightarrow> bool" where
  "validatePage s folder name type =
     (if falsy folder \<or> falsy name then False
      else (case validateFolder s folder type of
              None \<Rightarrow> False
            | Some target \<Rightarrow>
                0 < length (filter (\<lambda>child. Some child = name) (children target))))"

definition refresh :: "fetch_module \<Rightarrow> store \<Rightarrow> unit action_result" where
  "refresh net s =
     (case refresh_helper net (version s) (language s) of
        Sentinel b \<Rightarrow>
          \<lparr>returned = (), store_after = s,
           fetches = [RefreshFetch (version s) (language s)]\<rparr>
      | Data d \<Rightarrow>
          \<lparr>returned = (),
           store_after = s\<lparr>docIndex := data_docIndex d, guideIndex := data_guideIndex d,
             recommendedDocItems := data_recommendedDocItems d,
             recommendedGuideItems := data_recommendedGuideItems d\<rparr>,
           fetches = [RefreshFetch (version s) (language s)]\<rparr>)"

text \<open>
  \<open>xs[0]?.children\<close>: \<open>undefined\<close> (here \<open>None\<close>) when no entry passes the filter.
\<close>

definition getCategoryList :: "store \<Rightarrow> string \<Rightarrow> string \<Rightarrow> string list option" where
  "getCategoryList s type categoryName =
     (let convertedType = convertIndexType type in
      map_option children
        (first_element
           (filter (\<lambda>indexItem. category indexItem = categoryName)
              (index_slot s convertedType))))"

section \<open>Documentation server\<close>

text \<open>
  A route handler ends in \<open>res.sendStatus(n)\<close>, a bare status code, or in
  \<open>res.json(body)\<close>.
\<close>

datatype 'a response = SendStatus nat | Json 'a

definition placeholder :: recommended_item where
  "placeholder =
     \<lparr>item_id = 1, title = ''None_Available'', anchor = [], item_category = [],
      page = [], time = 1, icon = []\<rparr>"

text \<open>
  The accessors of \<open>utils/file\<close> that the handlers below call. A result is a number
  (\<open>Inl\<close>, tested by \<open>typeof x === "number"\<close>) or the data. The handlers are verified
  for every such pair of functions.
\<close>

record file_module =
  getIndex_accessor :: "string \<Rightarrow> string \<Rightarrow> string \<Rightarrow> nat + index_item list"
  getRecommendedItems_accessor :: "string \<Rightarrow> string \<Rightarrow> nat + recommended_item list"

datatype accessor_call =
  GetIndexCall string string string
  | GetRecommendedItemsCall string string

text \<open>
  The statement \<open>if (data.length === 0) data.push(placeholder)\<close>, on the array an
  accessor call has just returned (a value of its own: arrays are not shared between
  calls).
\<close>

definition push_placeholder :: "recommended_item list \<Rightarrow> recommended_item list" where
  "push_placeholder data = (if length data = 0 then data @ [placeholder] else data)"

text \<open>
  The handler of \<open>/refresh/:version/:language\<close>, with the accessor calls it has made
  when it responds. The rate limiter in front of it is not part of the handler.
\<close>

definition refresh_route ::
  "file_module \<Rightarrow> string \<Rightarrow> string \<Rightarrow> refresh_response response \<times> accessor_call list" where
  "refresh_route files vers lang =
     (case getIndex_accessor files vers lang ''Doc'' of
        Inl status \<Rightarrow> (SendStatus status, [GetIndexCall vers lang ''Doc''])
      | Inr doc_index \<Rightarrow>
     (case getIndex_accessor files vers lang ''Guide'' of
        Inl status \<Rightarrow>
          (SendStatus status,
           [GetIndexCall vers lang ''Doc'', GetIndexCall vers lang ''Guide''])
      | Inr guide_index \<Rightarrow>
     (case getRecommendedItems_accessor files lang ''Doc'' of
        Inl status \<Rightarrow>
          (SendStatus status,
           [GetIndexCall vers lang ''Doc'', GetIndexCall vers lang ''Guide'',
            GetRecommendedItemsCall lang ''Doc''])
      | Inr recommended_doc_items \<Rightarrow>
     (case getRecommendedItems_accessor files lang ''Guide'' of
        Inl status \<Rightarrow>
          (SendStatus status,
           [GetIndexCall vers lang ''Doc'', GetIndexCall vers lang ''Guide'',
            GetRecommendedItemsCall lang ''Doc'', GetRecommendedItemsCall lang ''Guide''])
      | Inr recommended_guide_items \<Rightarrow>
          (Json \<lparr>data_docIndex = doc_index, data_guideIndex = guide_index,
             data_recommendedDocItems = push_placeholder recommended_doc_items,
             data_recommendedGuideItems = push_placeholder recommended_guide_items\<rparr>,
           [GetIndexCall vers lang ''Doc'', GetIndexCall vers lang ''Guide'',
            GetRecommendedItemsCall lang ''Doc'',
            GetRecommendedItemsCall lang ''Guide''])))))"

text \<open>The handler of \<open>/getRecommendedItems/:language/:type\<close>.\<close>

definition getRecommendedItems_route ::
  "file_module \<Rightarrow> string \<Rightarrow> string \<Rightarrow> recommended_items_response response" where
  "getRecommendedItems_route files lang type =
     (case getRecommendedItems_accessor files lang type of
        Inl status \<Rightarrow> SendStatus status
      | Inr data \<Rightarrow> Json \<lparr>recommended_items = push_placeholder data\<rparr>)"

text \<open>
  The handler of \<open>/getFile/:version/:language/:type\<close>; the body is \<open>{ "file": file }\<close>,
  its one key written \<open>body_file\<close> here.
\<close>

record 'c file_body =
  body_file :: 'c

definition getFile_route ::
  "(string \<Rightarrow> string \<Rightarrow> string \<Rightarrow> string \<Rightarrow> string \<Rightarrow> nat + 'c)
   \<Rightarrow> string \<Rightarrow> string \<Rightarrow> string \<Rightarrow> string \<Rightarrow> string \<Rightarrow> 'c file_body response" where
  "getFile_route accessor folder name vers lang type =
     (case accessor folder name vers lang type of
        Inl status \<Rightarrow> SendStatus status
      | Inr content \<Rightarrow> Json \<lparr>body_file = content\<rparr>)"

text \<open>
  The disk, for the accessor below: a key (version, language, type, folder, name) has
  nothing stored under it, or a file with its content, or a file that fails to read.
\<close>

datatype 'c disk_entry = Content 'c | Unreadable

type_synonym file_key = "string \<times> string \<times> string \<times> string \<times> string"

text \<open>
  Modelled from the spec: the accessor \<open>getFile\<close> of \<open>utils/file\<close>, which is not among
  the sources. The spec has it resolve a path on disk from the identity key (version,
  language, type, folder, name) and return the content, 404 on a missing path or file
  and 500 on a read error.
\<close>

definition getFile ::
  "(file_key \<Rightarrow> 'c disk_entry option)
   \<Rightarrow> string \<Rightarrow> string \<Rightarrow> string \<Rightarrow> string \<Rightarrow> string \<Rightarrow> nat + 'c" where
  "getFile disk folder name vers lang type =
     (case disk (vers, lang, type, folder, name) of
        None \<Rightarrow> Inl 404
      | Some Unreadable \<Rightarrow> Inl 500
      | Some (Content c) \<Rightarrow> Inr c)"

section \<open>Deploy listener\<close>

text \<open>
  A parsed JSON value. An object lists its properties, each key once.
\<close>

datatype json =
  JNull
  | JBool bool
  | JNumber int
  | JString string
  | JArray "json list"
  | JObject "(string \<times> json) list"

datatype js_error = SyntaxError | TypeError

text \<open>
  A delivered message is represented by what \<open>JSON.parse(message.content.toString())\<close>
  does on it: it throws a \<open>SyntaxError\<close> when the content is not JSON text (the bytes
  \<open>deploy\<close>, say), and returns the parsed value otherwise.
\<close>

record message =
  parsed_content :: "js_error + json"

text \<open>
  Reading a property \<open>v.key\<close> for a key such as \<open>task\<close>: a \<open>TypeError\<close> on
  \<open>null\<close>, the property or \<open>undefined\<close> (\<open>None\<close>) on an object, \<open>undefined\<close> on a
  boolean, number, string or array, none of which has such a property.
\<close>

fun property :: "json \<Rightarrow> string \<Rightarrow> js_error + json option" where
  "property JNull key = Inl TypeError"
| "property (JObject props) key = Inr (map_of props key)"
| "property (JBool b) key = Inr None"
| "property (JNumber n) key = Inr None"
| "property (JString s) key = Inr None"
| "property (JArray vs) key = Inr None"

text \<open>
  What the callback of \<open>channel.consume\<close> has done when it returns or throws: whether it
  called \<open>channel.ack\<close>, whether it called \<open>shell.exec("bash deploy.sh")\<close>, and the
  error it threw, if any. The log line before the script is not modelled.
\<close>

record effects =
  acked :: bool
  executed :: bool
  thrown :: "js_error option"

definition consume :: "string \<Rightarrow> message option \<Rightarrow> effects" where
  "consume platform msg =
     (case msg of
        None \<Rightarrow> \<lparr>acked = False, executed = False, thrown = None\<rparr>
      | Some m \<Rightarrow>
          (case parsed_content m of
             Inl e \<Rightarrow> \<lparr>acked = False, executed = False, thrown = Some e\<rparr>
           | Inr messageContent \<Rightarrow>
               (case property messageContent ''task'' of
                  Inl e \<Rightarrow> \<lparr>acked = True, executed = False, thrown = Some e\<rparr>
                | Inr task \<Rightarrow>
                    if task = Some (JString ''Deploy'') \<and> platform = ''linux''
                    then \<lparr>acked = True, executed = True, thrown = None\<rparr>
                    else \<lparr>acked = True, executed = False, thrown = None\<rparr>)))"

section \<open>Frontend fetch helpers\<close>

text \<open>
  What \<open>fetch\<close> gives a helper: a rejection (the helper's \<open>catch\<close>), or a response with
  its status and the value \<open>response.json()\<close> resolves to, \<open>None\<close> when that call
  rejects. \<open>response.ok\<close> is, by the Fetch standard, a status from 200 to 299, so it is
  computed from the status and a 404 response is never \<open>ok\<close>.
\<close>

record 'a http_response =
  status :: nat
  json_body :: "'a option"

definition ok :: "'a http_response \<Rightarrow> bool" where
  "ok response = (200 \<le> status response \<and> status response \<le> 299)"

datatype 'a fetch_result = Rejected | Resolved "'a http_response"

text \<open>
  The two helpers of \<open>utils/fetch.ts\<close> that answer a 404 with empty data. The base URL
  is \<open>VITE_DOCS_API_BASE\<close>; \<open>fetch\<close> is the network, from the URL to the result.
\<close>

definition fetchDocumentationIndex ::
  "string \<Rightarrow> (string \<Rightarrow> documentation_index_response fetch_result)
   \<Rightarrow> string \<Rightarrow> string \<Rightarrow> documentation_index_response fetched" where
  "fetchDocumentationIndex base fetch vers lang =
     (case fetch (base @ ''/getIndex/'' @ vers @ ''/'' @ lang) of
        Rejected \<Rightarrow> Sentinel False
      | Resolved response \<Rightarrow>
          if ok response then
            (case json_body response of None \<Rightarrow> Sentinel False | Some d \<Rightarrow> Data d)
          else if status response = 404 then Data \<lparr>index = []\<rparr>
          else Sentinel False)"

definition fetchDocumentationCategories ::
  "string \<Rightarrow> (string \<Rightarrow> documentation_categories_response fetch_result)
   \<Rightarrow> string \<Rightarrow> string \<Rightarrow> documentation_categories_response fetched" where
  "fetchDocumentationCategories base fetch vers lang =
     (case fetch (base @ ''/getCategories/'' @ vers @ ''/'' @ lang) of
        Rejected \<Rightarrow> Sentinel False
      | Resolved response \<Rightarrow>
          if ok response then
            (case json_body response of None \<Rightarrow> Sentinel False | Some d \<Rightarrow> Data d)
          else if status response = 404 then Data \<lparr>categories = []\<rparr>
          else Sentinel False)"

section \<open>Sample data\<close>

text \<open>A store and a network to run the actions on.\<close>

definition sample_index :: "index_item list" where
  "sample_index =
     [\<lparr>category = ''Get_Started'', children = [''Introduction'', ''Collaborating'']\<rparr>,
      \<lparr>category = ''Community'', children = [''Rules'']\<rparr>]"

definition sample_store :: store where
  "sample_store =
     \<lparr>docIndex = sample_index, guideIndex = [], recommendedDocItems = [],
      recommendedGuideItems = [], version = ''v1'', language = ''en-US''\<rparr>"

definition fresh_index :: documentation_index_response where
  "fresh_index = \<lparr>index = [\<lparr>category = ''Community'', children = [''Rules'', ''Events'']\<rparr>]\<rparr>"

definition online :: fetch_module where
  "online =
     \<lparr>index_helper = (\<lambda>v l t. Data fresh_index),
      recommended_helper = (\<lambda>l t. Data \<lparr>recommended_items = []\<rparr>),
      refresh_helper = (\<lambda>v l. Data \<lparr>data_docIndex = index fresh_index, data_guideIndex = [],
         data_recommendedDocItems = [], data_recommendedGuideItems = []\<rparr>)\<rparr>"

definition offline :: fetch_module where
  "offline =
     \<lparr>index_helper = (\<lambda>v l t. Sentinel False),
      recommended_helper = (\<lambda>l t. Sentinel False),
      refresh_helper = (\<lambda>v l. Sentinel False)\<rparr>"

text \<open>
  The right-hand side of the page check in the spec's words: the name is among the
  children of the index entry whose category is the folder (the first such entry, the
  one \<open>validateFolder\<close> picks, should the index hold several).
\<close>

definition page_in_index :: "index_item list \<Rightarrow> string \<Rightarrow> string \<Rightarrow> bool" where
  "page_in_index idx folder name =
     (case find (\<lambda>entry. category entry = folder) idx of
        None \<Rightarrow> False
      | Some entry \<Rightarrow> name \<in> set (children entry))"

definition unnamed_folder_store :: store where
  "unnamed_folder_store =
     \<lparr>docIndex = [\<lparr>category = [], children = [''Introduction'']\<rparr>], guideIndex = [],
      recommendedDocItems = [], recommendedGuideItems = [],
      version = ''v1'', language = ''en-US''\<rparr>"

definition sample_item :: recommended_item where
  "sample_item =
     \<lparr>item_id = 7, title = ''Introduction'', anchor = ''Welcome'',
      item_category = ''Get_Started'', page = ''Introduction'', time = 4, icon = ''fa-book''\<rparr>"

text \<open>
  Accessors that fail at the \<open>k\<close>-th call of the refresh handler (at none for \<open>k = 0\<close>);
  the Doc recommended items are empty, the Guide ones are not.
\<close>

definition failing_at :: "nat \<Rightarrow> file_module" where
  "failing_at k =
     \<lparr>getIndex_accessor = (\<lambda>v l t.
        if t = ''Doc'' then (if k = 1 then Inl 404 else Inr sample_index)
        else (if k = 2 then Inl 500 else Inr [])),
      getRecommendedItems_accessor = (\<lambda>l t.
        if t = ''Doc'' then (if k = 3 then Inl 404 else Inr [])
        else (if k = 4 then Inl 500 else Inr [sample_item]))\<rparr>"

definition sample_disk :: "file_key \<Rightarrow> string disk_entry option" where
  "sample_disk key =
     (if key = (''v1'', ''en-US'', ''Doc'', ''Get_Started'', ''Introduction'')
      then Some (Content ''<h1>Introduction</h1>'') else None)"

definition deploy_message :: message where
  "deploy_message =
     \<lparr>parsed_content = Inr (JObject [(''task'', JString ''Deploy''), (''sender'', JString ''Bot'')])\<rparr>"

definition restart_message :: message where
  "restart_message =
     \<lparr>parsed_content = Inr (JObject [(''task'', JString ''Restart''), (''sender'', JString ''Bot'')])\<rparr>"

definition malformed_message :: message where
  "malformed_message = \<lparr>parsed_content = Inl SyntaxError\<rparr>"

text \<open>
  A network on which version \<open>v1\<close> is unknown to the server (404), \<open>v2\<close> makes it fail
  (500), \<open>v3\<close> is served, \<open>v4\<close> is answered with a body that is not JSON, and
  anything else does not connect.
\<close>

definition sample_network :: "'a \<Rightarrow> string \<Rightarrow> 'a fetch_result" where
  "sample_network payload url =
     (if url = ''https://docs/getIndex/v1/en-US'' \<or> url = ''https://docs/getCategories/v1/en-US''
      then Resolved \<lparr>status = 404, json_body = None\<rparr>
      else if url = ''https://docs/getIndex/v2/en-US'' \<or> url = ''https://docs/getCategories/v2/en-US''
      then Resolved \<lparr>status = 500, json_body = None\<rparr>
      else if url = ''https://docs/getIndex/v3/en-US'' \<or> url = ''https://docs/getCategories/v3/en-US''
      then Resolved \<lparr>status = 200, json_body = Some payload\<rparr>
      else if url = ''https://docs/getIndex/v4/en-US'' \<or> url = ''https://docs/getCategories/v4/en-US''
      then Resolved \<lparr>status = 200, json_body = None\<rparr>
      else Rejected)"

definition empty_files :: file_module where
  "empty_files =
     \<lparr>getIndex_accessor = (\<lambda>v l t. Inr []),
      getRecommendedItems_accessor = (\<lambda>l t. Inr [])\<rparr>"

section \<open>Properties of the store\<close>

lemma first_element_filter: "first_element (filter P xs) = find P xs"
  by (induction xs) (simp_all add: first_element_def)

text \<open>
  C4. With \<open>force = false\<close> and a non-empty cached index, \<open>getIndex\<close> returns the cached
  array, calls no helper and leaves the store as it is. With \<open>force = true\<close> it calls the
  index helper exactly once, with the store's version and language and the given type,
  whatever the cache holds; when the helper resolves to data, the selected slot is
  overwritten with the fetched index, which is also the return value.
\<close>

theorem getIndex_cache_and_force:
  "(index_slot s (convertIndexType type) \<noteq> [] \<longrightarrow>
      returned (getIndex net False type s) = index_slot s (convertIndexType type) \<and>
      fetches (getIndex net False type s) = [] \<and>
      store_after (getIndex net False type s) = s) \<and>
   fetches (getIndex net True type s) = [IndexFetch (version s) (language s) type] \<and>
   (index_helper net (version s) (language s) type = Data d \<longrightarrow>
      index_slot (store_after (getIndex net True type s)) (convertIndexType type) = index d \<and>
      returned (getIndex net True type s) = index d)"
  by (cases "convertIndexType type")
     (auto simp: getIndex_def Let_def split: fetched.splits)

theorem getIndex_cache_and_force_witness:
  "index_slot sample_store (convertIndexType ''Doc'') \<noteq> [] \<and>
   index_helper online (version sample_store) (language sample_store) ''Doc'' = Data fresh_index \<and>
   returned (getIndex online False ''Doc'' sample_store) = sample_index \<and>
   fetches (getIndex online False ''Doc'' sample_store) = [] \<and>
   fetches (getIndex online True ''Doc'' sample_store) = [IndexFetch ''v1'' ''en-US'' ''Doc''] \<and>
   docIndex (store_after (getIndex online True ''Doc'' sample_store)) = index fresh_index"
proof -
  have cached: "index_slot sample_store (convertIndexType ''Doc'') \<noteq> []"
    by (simp add: sample_store_def sample_index_def convertIndexType_def)
  have fetched: "index_helper online (version sample_store) (language sample_store) ''Doc''
      = Data fresh_index"
    by (simp add: online_def)
  from getIndex_cache_and_force [of sample_store "''Doc''" online fresh_index] cached fetched
  show ?thesis
    by (simp add: sample_store_def convertIndexType_def)
qed

text \<open>
  C3. When the helper an action awaits resolves to a boolean, the action assigns nothing:
  after \<open>refresh\<close> the four cached collections (indeed the whole store) are what they
  were, and \<open>getIndex\<close> and \<open>getRecommendedItems\<close> leave the store as it is and return
  the array cached in the selected slot. The actions have no throwing path here: each
  returns a result for every store, type and helper.
\<close>

theorem failed_fetch_keeps_cache:
  "(refresh_helper net (version s) (language s) = Sentinel b \<longrightarrow>
      docIndex (store_after (refresh net s)) = docIndex s \<and>
      guideIndex (store_after (refresh net s)) = guideIndex s \<and>
      recommendedDocItems (store_after (refresh net s)) = recommendedDocItems s \<and>
      recommendedGuideItems (store_after (refresh net s)) = recommendedGuideItems s \<and>
      store_after (refresh net s) = s) \<and>
   (index_helper net (version s) (language s) type = Sentinel b \<longrightarrow>
      store_after (getIndex net force type s) = s \<and>
      returned (getIndex net force type s) = index_slot s (convertIndexType type)) \<and>
   (recommended_helper net (language s) type = Sentinel b \<longrightarrow>
      store_after (getRecommendedItems net force type s) = s \<and>
      returned (getRecommendedItems net force type s)
        = recommended_slot s (convertRecommendedType type))"
  by (simp add: refresh_def getIndex_def getRecommendedItems_def Let_def)

theorem failed_fetch_keeps_cache_witness:
  "refresh_helper offline (version sample_store) (language sample_store) = Sentinel False \<and>
   index_helper offline (version sample_store) (language sample_store) ''Guide''
     = Sentinel False \<and>
   recommended_helper offline (language sample_store) ''Doc'' = Sentinel False \<and>
   store_after (refresh offline sample_store) = sample_store \<and>
   store_after (getIndex offline True ''Guide'' sample_store) = sample_store \<and>
   returned (getIndex offline True ''Guide'' sample_store) = [] \<and>
   store_after (getRecommendedItems offline False ''Doc'' sample_store) = sample_store \<and>
   returned (getRecommendedItems offline False ''Doc'' sample_store) = []"
proof -
  have r: "refresh_helper offline (version sample_store) (language sample_store)
      = Sentinel False"
    by (simp add: offline_def)
  have i: "index_helper offline (version sample_store) (language sample_store) ''Guide''
      = Sentinel False"
    by (simp add: offline_def)
  have m: "recommended_helper offline (language sample_store) ''Doc'' = Sentinel False"
    by (simp add: offline_def)
  from failed_fetch_keeps_cache [of offline sample_store False "''Guide''" True] r i
  have a: "store_after (refresh offline sample_store) = sample_store \<and>
      store_after (getIndex offline True ''Guide'' sample_store) = sample_store \<and>
      returned (getIndex offline True ''Guide'' sample_store) = []"
    by (simp add: sample_store_def convertIndexType_def)
  from failed_fetch_keeps_cache [of offline sample_store False "''Doc''" False] m
  have b: "store_after (getRecommendedItems offline False ''Doc'' sample_store) = sample_store \<and>
      returned (getRecommendedItems offline False ''Doc'' sample_store) = []"
    by (simp add: sample_store_def convertRecommendedType_def)
  from r i m a b show ?thesis by simp
qed

lemma filter_eq_nonempty:
  "filter (\<lambda>child. child = name) xs \<noteq> [] \<longleftrightarrow> name \<in> set xs"
  by (auto simp: filter_empty_conv)

text \<open>
  C5, as stated, fails on the empty string: the guard \<open>!folder || !name\<close> answers
  \<open>false\<close> before the index is read, although the cached entry whose category is the
  (empty) folder lists the page.
\<close>

theorem validatePage_empty_folder_counterexample:
  "page_in_index (docIndex unnamed_folder_store) [] ''Introduction'' \<and>
   \<not> validatePage unnamed_folder_store (Some []) (Some ''Introduction'') ''Doc''"
  by (simp add: page_in_index_def unnamed_folder_store_def validatePage_def falsy_def)

text \<open>
  C5, amended. For every type and every non-empty folder and name,
  \<open>validatePage\<close> is true if and only if the name is among the children of the first
  entry, in the cached index the type selects, whose category is the folder. When the
  folder or the name is \<open>undefined\<close> or empty the answer is \<open>false\<close>. The function reads
  only the store: it takes no fetch helper and so makes no network call.
\<close>

theorem validatePage_iff_listed:
  "(folder \<noteq> [] \<and> name \<noteq> [] \<longrightarrow>
      validatePage s (Some folder) (Some name) type
        = page_in_index (index_slot s (convertIndexType type)) folder name) \<and>
   (falsy f \<or> falsy n \<longrightarrow> \<not> validatePage s f n type)"
proof -
  have "validatePage s (Some folder) (Some name) type
      = page_in_index (index_slot s (convertIndexType type)) folder name"
    if "folder \<noteq> []" "name \<noteq> []"
    using that
    by (simp add: validatePage_def validateFolder_def falsy_def Let_def page_in_index_def
        first_element_filter filter_eq_nonempty split: option.splits)
  moreover have "\<not> validatePage s f n type" if "falsy f \<or> falsy n"
    using that by (simp add: validatePage_def)
  ultimately show ?thesis by blast
qed

theorem validatePage_iff_listed_witness:
  "''Get_Started'' \<noteq> [] \<and> ''Collaborating'' \<noteq> [] \<and> falsy None \<and>
   validatePage sample_store (Some ''Get_Started'') (Some ''Collaborating'') ''Doc'' \<and>
   page_in_index (docIndex sample_store) ''Get_Started'' ''Collaborating'' \<and>
   \<not> validatePage sample_store (Some ''Get_Started'') (Some ''Rules'') ''Doc'' \<and>
   \<not> validatePage sample_store None (Some ''Rules'') ''Doc''"
proof -
  have listed: "page_in_index (docIndex sample_store) ''Get_Started'' ''Collaborating''"
    by (simp add: page_in_index_def sample_store_def sample_index_def)
  have unlisted: "\<not> page_in_index (docIndex sample_store) ''Get_Started'' ''Rules''"
    by (simp add: page_in_index_def sample_store_def sample_index_def)
  have doc: "index_slot sample_store (convertIndexType ''Doc'') = docIndex sample_store"
    by (simp add: convertIndexType_def)
  have undef: "falsy None"
    by (simp add: falsy_def)
  from validatePage_iff_listed
    [of "''Get_Started''" "''Collaborating''" sample_store "''Doc''" None "Some ''Rules''"]
    listed doc undef
  have a: "validatePage sample_store (Some ''Get_Started'') (Some ''Collaborating'') ''Doc'' \<and>
      \<not> validatePage sample_store None (Some ''Rules'') ''Doc''"
    by simp
  from validatePage_iff_listed
    [of "''Get_Started''" "''Rules''" sample_store "''Doc''" None None]
    unlisted doc
  have b: "\<not> validatePage sample_store (Some ''Get_Started'') (Some ''Rules'') ''Doc''"
    by simp
  from a b listed undef show ?thesis by simp
qed

text \<open>
  C9. A type other than exactly \<open>"Guide"\<close> (so \<open>"Doc"\<close>, the empty string, any other
  string) selects the Doc slots. \<open>getIndex\<close> and \<open>getRecommendedItems\<close> then test,
  return and assign \<open>docIndex\<close> and \<open>recommendedDocItems\<close> only, passing the type on to
  the helper as it is; \<open>validateFolder\<close> and \<open>getCategoryList\<close> search \<open>docIndex\<close>.
  Every type gets a result: no action has a branch that rejects one.
\<close>

theorem other_type_selects_doc_slot:
  "type \<noteq> ''Guide'' \<longrightarrow>
     convertIndexType type = DocIndexKey \<and>
     convertRecommendedType type = RecommendedDocItemsKey \<and>
     getIndex net force type s =
       (if docIndex s = [] \<or> force then
          (case index_helper net (version s) (language s) type of
             Sentinel b \<Rightarrow>
               \<lparr>returned = docIndex s, store_after = s,
                fetches = [IndexFetch (version s) (language s) type]\<rparr>
           | Data d \<Rightarrow>
               \<lparr>returned = index d, store_after = s\<lparr>docIndex := index d\<rparr>,
                fetches = [IndexFetch (version s) (language s) type]\<rparr>)
        else \<lparr>returned = docIndex s, store_after = s, fetches = []\<rparr>) \<and>
     getRecommendedItems net force type s =
       (if recommendedDocItems s = [] \<or> force then
          (case recommended_helper net (language s) type of
             Sentinel b \<Rightarrow>
               \<lparr>returned = recommendedDocItems s, store_after = s,
                fetches = [RecommendedFetch (language s) type]\<rparr>
           | Data d \<Rightarrow>
               \<lparr>returned = recommended_items d,
                store_after = s\<lparr>recommendedDocItems := recommended_items d\<rparr>,
                fetches = [RecommendedFetch (language s) type]\<rparr>)
        else \<lparr>returned = recommendedDocItems s, store_after = s, fetches = []\<rparr>) \<and>
     validateFolder s folder type =
       (if falsy folder then None
        else find (\<lambda>indexItem. Some (category indexItem) = folder) (docIndex s)) \<and>
     getCategoryList s type categoryName =
       map_option children (find (\<lambda>indexItem. category indexItem = categoryName) (docIndex s))"
  (is "_ \<longrightarrow> ?k \<and> ?r \<and> ?i \<and> ?m \<and> ?f \<and> ?c")
proof
  assume "type \<noteq> ''Guide''"
  then have k: ?k and r: ?r
    by (simp_all add: convertIndexType_def convertRecommendedType_def)
  have i: ?i
    by (simp add: getIndex_def k split: fetched.splits)
  have m: ?m
    by (simp add: getRecommendedItems_def r split: fetched.splits)
  have f: ?f
    by (simp add: validateFolder_def k first_element_filter)
  have c: ?c
    by (simp add: getCategoryList_def k first_element_filter)
  from k r i m f c show "?k \<and> ?r \<and> ?i \<and> ?m \<and> ?f \<and> ?c"
    by (intro conjI)
qed

theorem other_type_selects_doc_slot_witness:
  "''guide'' \<noteq> ''Guide'' \<and> [] \<noteq> ''Guide'' \<and>
   returned (getIndex offline False ''guide'' sample_store) = sample_index \<and>
   fetches (getIndex offline False ''guide'' sample_store) = [] \<and>
   fetches (getRecommendedItems offline False [] sample_store) = [RecommendedFetch ''en-US'' []] \<and>
   validateFolder sample_store (Some ''Community'') []
     = Some \<lparr>category = ''Community'', children = [''Rules'']\<rparr> \<and>
   getCategoryList sample_store ''guide'' ''Community'' = Some [''Rules'']"
proof -
  have lower: "''guide'' \<noteq> ''Guide''" and empty: "[] \<noteq> ''Guide''"
    by simp_all
  from other_type_selects_doc_slot
    [of "''guide''" offline False sample_store "Some ''Community''" "''Community''"] lower
  have a: "returned (getIndex offline False ''guide'' sample_store) = sample_index \<and>
      fetches (getIndex offline False ''guide'' sample_store) = [] \<and>
      getCategoryList sample_store ''guide'' ''Community'' = Some [''Rules'']"
    by (simp add: sample_store_def sample_index_def)
  from other_type_selects_doc_slot
    [of "[]" offline False sample_store "Some ''Community''" "''Community''"] empty
  have b: "fetches (getRecommendedItems offline False [] sample_store)
        = [RecommendedFetch ''en-US'' []] \<and>
      validateFolder sample_store (Some ''Community'') []
        = Some \<lparr>category = ''Community'', children = [''Rules'']\<rparr>"
    by (simp add: sample_store_def sample_index_def offline_def falsy_def)
  from lower empty a b show ?thesis by simp
qed

text \<open>
  C10. \<open>getCategoryList\<close> returns \<open>undefined\<close> (\<open>None\<close>), not an array, exactly when no
  entry of the selected cached index has the category asked for; an empty cache is such
  a case. When an entry matches, the result is the children of the first matching entry.
\<close>

theorem getCategoryList_undefined_without_match:
  "(getCategoryList s type categoryName = None \<longleftrightarrow>
      (\<forall>entry \<in> set (index_slot s (convertIndexType type)). category entry \<noteq> categoryName)) \<and>
   (index_slot s (convertIndexType type) = [] \<longrightarrow> getCategoryList s type categoryName = None) \<and>
   (find (\<lambda>indexItem. category indexItem = categoryName) (index_slot s (convertIndexType type))
      = Some entry \<longrightarrow>
    getCategoryList s type categoryName = Some (children entry))"
  by (auto simp: getCategoryList_def first_element_filter find_None_iff)

theorem getCategoryList_undefined_without_match_witness:
  "index_slot sample_store (convertIndexType ''Guide'') = [] \<and>
   getCategoryList sample_store ''Guide'' ''Community'' = None \<and>
   getCategoryList sample_store ''Doc'' ''Missing'' = None \<and>
   find (\<lambda>indexItem. category indexItem = ''Community'')
     (index_slot sample_store (convertIndexType ''Doc''))
     = Some \<lparr>category = ''Community'', children = [''Rules'']\<rparr> \<and>
   getCategoryList sample_store ''Doc'' ''Community'' = Some [''Rules'']"
proof -
  have guide: "index_slot sample_store (convertIndexType ''Guide'') = []"
    by (simp add: convertIndexType_def sample_store_def)
  have missing: "\<forall>entry \<in> set (index_slot sample_store (convertIndexType ''Doc'')).
      category entry \<noteq> ''Missing''"
    by (simp add: convertIndexType_def sample_store_def sample_index_def)
  have found: "find (\<lambda>indexItem. category indexItem = ''Community'')
      (index_slot sample_store (convertIndexType ''Doc''))
      = Some \<lparr>category = ''Community'', children = [''Rules'']\<rparr>"
    by (simp add: convertIndexType_def sample_store_def sample_index_def)
  from getCategoryList_undefined_without_match [of sample_store "''Guide''" "''Community''"] guide
  have a: "getCategoryList sample_store ''Guide'' ''Community'' = None"
    by simp
  from getCategoryList_undefined_without_match [of sample_store "''Doc''" "''Missing''"] missing
  have b: "getCategoryList sample_store ''Doc'' ''Missing'' = None"
    by simp
  from getCategoryList_undefined_without_match
    [of sample_store "''Doc''" "''Community''" "\<lparr>category = ''Community'', children = [''Rules'']\<rparr>"]
    found
  have c: "getCategoryList sample_store ''Doc'' ''Community'' = Some [''Rules'']"
    by simp
  from guide a b found c show ?thesis by simp
qed

section \<open>Properties of the server\<close>

lemma push_placeholder_nonempty: "push_placeholder data \<noteq> []"
  by (simp add: push_placeholder_def)

lemma push_placeholder_empty: "push_placeholder [] = [placeholder]"
  by (simp add: push_placeholder_def)

text \<open>
  C1. For a key under which the disk holds a file with content \<open>c\<close>, \<open>getFile\<close> returns
  \<open>c\<close> and the route responds with the JSON object whose \<open>file\<close> is \<open>c\<close>; for a key
  under which the disk holds nothing, \<open>getFile\<close> returns the number 404 and the route
  sends 404 as a bare status code.
\<close>

theorem getFile_content_or_404:
  "(disk (vers, lang, type, folder, name) = Some (Content c) \<longrightarrow>
      getFile disk folder name vers lang type = Inr c \<and>
      getFile_route (getFile disk) folder name vers lang type = Json \<lparr>body_file = c\<rparr>) \<and>
   (disk (vers, lang, type, folder, name) = None \<longrightarrow>
      getFile disk folder name vers lang type = Inl 404 \<and>
      getFile_route (getFile disk) folder name vers lang type = SendStatus 404)"
  by (simp add: getFile_def getFile_route_def)

theorem getFile_content_or_404_witness:
  "sample_disk (''v1'', ''en-US'', ''Doc'', ''Get_Started'', ''Introduction'')
     = Some (Content ''<h1>Introduction</h1>'') \<and>
   sample_disk (''v1'', ''en-US'', ''Doc'', ''Get_Started'', ''Missing'') = None \<and>
   getFile_route (getFile sample_disk) ''Get_Started'' ''Introduction'' ''v1'' ''en-US'' ''Doc''
     = Json \<lparr>body_file = ''<h1>Introduction</h1>''\<rparr> \<and>
   getFile sample_disk ''Get_Started'' ''Missing'' ''v1'' ''en-US'' ''Doc'' = Inl 404 \<and>
   getFile_route (getFile sample_disk) ''Get_Started'' ''Missing'' ''v1'' ''en-US'' ''Doc''
     = SendStatus 404"
proof -
  have present: "sample_disk (''v1'', ''en-US'', ''Doc'', ''Get_Started'', ''Introduction'')
      = Some (Content ''<h1>Introduction</h1>'')"
    by (simp add: sample_disk_def)
  have absent: "sample_disk (''v1'', ''en-US'', ''Doc'', ''Get_Started'', ''Missing'') = None"
    by (simp add: sample_disk_def)
  from getFile_content_or_404
    [of sample_disk "''v1''" "''en-US''" "''Doc''" "''Get_Started''" "''Introduction''"
      "''<h1>Introduction</h1>''"] present
  have a: "getFile_route (getFile sample_disk) ''Get_Started'' ''Introduction'' ''v1'' ''en-US''
      ''Doc'' = Json \<lparr>body_file = ''<h1>Introduction</h1>''\<rparr>"
    by simp
  from getFile_content_or_404
    [of sample_disk "''v1''" "''en-US''" "''Doc''" "''Get_Started''" "''Missing''"] absent
  have b: "getFile sample_disk ''Get_Started'' ''Missing'' ''v1'' ''en-US'' ''Doc'' = Inl 404 \<and>
      getFile_route (getFile sample_disk) ''Get_Started'' ''Missing'' ''v1'' ''en-US'' ''Doc''
        = SendStatus 404"
    by simp
  from present absent a b show ?thesis by simp
qed

text \<open>
  C2. A JSON response of \<open>/getRecommendedItems\<close> never carries an empty list, and a
  JSON response of \<open>/refresh\<close> carries two non-empty recommended lists. Where the
  accessor returned the empty list, the list in the response is the one-element list of
  the placeholder, whose id is 1 and whose title is \<open>None_Available\<close>.
\<close>

theorem recommended_items_never_empty:
  "(getRecommendedItems_route files lang type = Json body \<longrightarrow> recommended_items body \<noteq> []) \<and>
   (getRecommendedItems_accessor files lang type = Inr [] \<longrightarrow>
      getRecommendedItems_route files lang type = Json \<lparr>recommended_items = [placeholder]\<rparr>) \<and>
   (fst (refresh_route files vers lang) = Json combined \<longrightarrow>
      data_recommendedDocItems combined \<noteq> [] \<and>
      data_recommendedGuideItems combined \<noteq> [] \<and>
      (getRecommendedItems_accessor files lang ''Doc'' = Inr [] \<longrightarrow>
         data_recommendedDocItems combined = [placeholder]) \<and>
      (getRecommendedItems_accessor files lang ''Guide'' = Inr [] \<longrightarrow>
         data_recommendedGuideItems combined = [placeholder])) \<and>
   item_id placeholder = 1 \<and> title placeholder = ''None_Available''"
proof -
  have single: "recommended_items body \<noteq> []"
    if "getRecommendedItems_route files lang type = Json body"
    using that
    by (auto simp: getRecommendedItems_route_def push_placeholder_nonempty split: sum.splits)
  have single_empty: "getRecommendedItems_route files lang type
      = Json \<lparr>recommended_items = [placeholder]\<rparr>"
    if "getRecommendedItems_accessor files lang type = Inr []"
    using that by (simp add: getRecommendedItems_route_def push_placeholder_empty)
  have compound: "data_recommendedDocItems combined \<noteq> [] \<and>
      data_recommendedGuideItems combined \<noteq> [] \<and>
      (getRecommendedItems_accessor files lang ''Doc'' = Inr [] \<longrightarrow>
         data_recommendedDocItems combined = [placeholder]) \<and>
      (getRecommendedItems_accessor files lang ''Guide'' = Inr [] \<longrightarrow>
         data_recommendedGuideItems combined = [placeholder])"
    if "fst (refresh_route files vers lang) = Json combined"
    using that
    by (auto simp: refresh_route_def push_placeholder_nonempty push_placeholder_empty
        split: sum.splits)
  have "item_id placeholder = 1 \<and> title placeholder = ''None_Available''"
    by (simp add: placeholder_def)
  with single single_empty compound show ?thesis by blast
qed

theorem recommended_items_never_empty_witness:
  "getRecommendedItems_accessor (failing_at 0) ''en-US'' ''Doc'' = Inr [] \<and>
   getRecommendedItems_route (failing_at 0) ''en-US'' ''Doc''
     = Json \<lparr>recommended_items = [placeholder]\<rparr> \<and>
   fst (refresh_route (failing_at 0) ''v1'' ''en-US'')
     = Json \<lparr>data_docIndex = sample_index, data_guideIndex = [],
         data_recommendedDocItems = [placeholder],
         data_recommendedGuideItems = [sample_item]\<rparr> \<and>
   getRecommendedItems_accessor empty_files ''en-US'' ''Guide'' = Inr [] \<and>
   fst (refresh_route empty_files ''v1'' ''en-US'')
     = Json \<lparr>data_docIndex = [], data_guideIndex = [],
         data_recommendedDocItems = [placeholder],
         data_recommendedGuideItems = [placeholder]\<rparr>"
proof -
  have doc_empty: "getRecommendedItems_accessor (failing_at 0) ''en-US'' ''Doc'' = Inr []"
    by (simp add: failing_at_def)
  have both_empty: "getRecommendedItems_accessor empty_files ''en-US'' ''Doc'' = Inr []"
    "getRecommendedItems_accessor empty_files ''en-US'' ''Guide'' = Inr []"
    by (simp_all add: empty_files_def)
  have one: "getRecommendedItems_route (failing_at 0) ''en-US'' ''Doc''
      = Json \<lparr>recommended_items = [placeholder]\<rparr>"
    by (simp add: getRecommendedItems_route_def failing_at_def push_placeholder_def)
  have all: "fst (refresh_route (failing_at 0) ''v1'' ''en-US'')
      = Json \<lparr>data_docIndex = sample_index, data_guideIndex = [],
          data_recommendedDocItems = push_placeholder [],
          data_recommendedGuideItems = push_placeholder [sample_item]\<rparr>"
    by (simp add: refresh_route_def failing_at_def)
  have none: "fst (refresh_route empty_files ''v1'' ''en-US'')
      = Json \<lparr>data_docIndex = [], data_guideIndex = [],
          data_recommendedDocItems = push_placeholder [],
          data_recommendedGuideItems = push_placeholder []\<rparr>"
    by (simp add: refresh_route_def empty_files_def)
  from recommended_items_never_empty
    [of "failing_at 0" "''en-US''" "''Doc''" "\<lparr>recommended_items = [placeholder]\<rparr>" "''v1''"
      "\<lparr>data_docIndex = sample_index, data_guideIndex = [],
        data_recommendedDocItems = push_placeholder [],
        data_recommendedGuideItems = push_placeholder [sample_item]\<rparr>"]
    doc_empty one all
  have a: "push_placeholder [] = [placeholder] \<and> push_placeholder [sample_item] \<noteq> []"
    by simp
  from recommended_items_never_empty
    [of empty_files "''en-US''" "''Guide''" "\<lparr>recommended_items = [placeholder]\<rparr>" "''v1''"
      "\<lparr>data_docIndex = [], data_guideIndex = [],
        data_recommendedDocItems = push_placeholder [],
        data_recommendedGuideItems = push_placeholder []\<rparr>"]
    both_empty none
  have b: "getRecommendedItems_route empty_files ''en-US'' ''Guide''
      = Json \<lparr>recommended_items = [placeholder]\<rparr>"
    by simp
  have keep: "push_placeholder [sample_item] = [sample_item]"
    by (simp add: push_placeholder_def)
  from doc_empty both_empty one all none a b keep show ?thesis by simp
qed

text \<open>
  C7. The refresh handler calls the accessor for the Doc index, the Guide index, the Doc
  recommended items and the Guide recommended items, in this order. At the first call
  that returns a number it sends that number as a bare status code, having made no
  later call and sent no JSON body. It responds with the combined JSON object if and
  only if none of the four results is a number, and then it has made all four calls.
\<close>

theorem refresh_route_stops_at_first_status:
  "(getIndex_accessor files vers lang ''Doc'' = Inl n \<longrightarrow>
      refresh_route files vers lang = (SendStatus n, [GetIndexCall vers lang ''Doc''])) \<and>
   (getIndex_accessor files vers lang ''Doc'' = Inr di \<and>
    getIndex_accessor files vers lang ''Guide'' = Inl n \<longrightarrow>
      refresh_route files vers lang =
        (SendStatus n, [GetIndexCall vers lang ''Doc'', GetIndexCall vers lang ''Guide''])) \<and>
   (getIndex_accessor files vers lang ''Doc'' = Inr di \<and>
    getIndex_accessor files vers lang ''Guide'' = Inr gi \<and>
    getRecommendedItems_accessor files lang ''Doc'' = Inl n \<longrightarrow>
      refresh_route files vers lang =
        (SendStatus n,
         [GetIndexCall vers lang ''Doc'', GetIndexCall vers lang ''Guide'',
          GetRecommendedItemsCall lang ''Doc''])) \<and>
   (getIndex_accessor files vers lang ''Doc'' = Inr di \<and>
    getIndex_accessor files vers lang ''Guide'' = Inr gi \<and>
    getRecommendedItems_accessor files lang ''Doc'' = Inr rd \<and>
    getRecommendedItems_accessor files lang ''Guide'' = Inl n \<longrightarrow>
      refresh_route files vers lang =
        (SendStatus n,
         [GetIndexCall vers lang ''Doc'', GetIndexCall vers lang ''Guide'',
          GetRecommendedItemsCall lang ''Doc'', GetRecommendedItemsCall lang ''Guide''])) \<and>
   (getIndex_accessor files vers lang ''Doc'' = Inr di \<and>
    getIndex_accessor files vers lang ''Guide'' = Inr gi \<and>
    getRecommendedItems_accessor files lang ''Doc'' = Inr rd \<and>
    getRecommendedItems_accessor files lang ''Guide'' = Inr rg \<longrightarrow>
      refresh_route files vers lang =
        (Json \<lparr>data_docIndex = di, data_guideIndex = gi,
           data_recommendedDocItems = push_placeholder rd,
           data_recommendedGuideItems = push_placeholder rg\<rparr>,
         [GetIndexCall vers lang ''Doc'', GetIndexCall vers lang ''Guide'',
          GetRecommendedItemsCall lang ''Doc'', GetRecommendedItemsCall lang ''Guide''])) \<and>
   ((\<exists>combined. fst (refresh_route files vers lang) = Json combined) \<longleftrightarrow>
      \<not> isl (getIndex_accessor files vers lang ''Doc'') \<and>
      \<not> isl (getIndex_accessor files vers lang ''Guide'') \<and>
      \<not> isl (getRecommendedItems_accessor files lang ''Doc'') \<and>
      \<not> isl (getRecommendedItems_accessor files lang ''Guide''))"
proof -
  have json_iff: "(\<exists>combined. fst (refresh_route files vers lang) = Json combined) \<longleftrightarrow>
      \<not> isl (getIndex_accessor files vers lang ''Doc'') \<and>
      \<not> isl (getIndex_accessor files vers lang ''Guide'') \<and>
      \<not> isl (getRecommendedItems_accessor files lang ''Doc'') \<and>
      \<not> isl (getRecommendedItems_accessor files lang ''Guide'')"
    by (simp add: refresh_route_def split: sum.splits)
  show ?thesis
    by (intro conjI impI json_iff) (simp_all add: refresh_route_def)
qed

theorem refresh_route_stops_at_first_status_witness:
  "getIndex_accessor (failing_at 1) ''v1'' ''en-US'' ''Doc'' = Inl 404 \<and>
   refresh_route (failing_at 1) ''v1'' ''en-US''
     = (SendStatus 404, [GetIndexCall ''v1'' ''en-US'' ''Doc'']) \<and>
   getIndex_accessor (failing_at 2) ''v1'' ''en-US'' ''Guide'' = Inl 500 \<and>
   refresh_route (failing_at 2) ''v1'' ''en-US''
     = (SendStatus 500,
        [GetIndexCall ''v1'' ''en-US'' ''Doc'', GetIndexCall ''v1'' ''en-US'' ''Guide'']) \<and>
   getRecommendedItems_accessor (failing_at 3) ''en-US'' ''Doc'' = Inl 404 \<and>
   refresh_route (failing_at 3) ''v1'' ''en-US''
     = (SendStatus 404,
        [GetIndexCall ''v1'' ''en-US'' ''Doc'', GetIndexCall ''v1'' ''en-US'' ''Guide'',
         GetRecommendedItemsCall ''en-US'' ''Doc'']) \<and>
   getRecommendedItems_accessor (failing_at 4) ''en-US'' ''Guide'' = Inl 500 \<and>
   refresh_route (failing_at 4) ''v1'' ''en-US''
     = (SendStatus 500,
        [GetIndexCall ''v1'' ''en-US'' ''Doc'', GetIndexCall ''v1'' ''en-US'' ''Guide'',
         GetRecommendedItemsCall ''en-US'' ''Doc'',
         GetRecommendedItemsCall ''en-US'' ''Guide'']) \<and>
   getRecommendedItems_accessor (failing_at 0) ''en-US'' ''Guide'' = Inr [sample_item] \<and>
   refresh_route (failing_at 0) ''v1'' ''en-US''
     = (Json \<lparr>data_docIndex = sample_index, data_guideIndex = [],
          data_recommendedDocItems = push_placeholder [],
          data_recommendedGuideItems = push_placeholder [sample_item]\<rparr>,
        [GetIndexCall ''v1'' ''en-US'' ''Doc'', GetIndexCall ''v1'' ''en-US'' ''Guide'',
         GetRecommendedItemsCall ''en-US'' ''Doc'',
         GetRecommendedItemsCall ''en-US'' ''Guide''])"
proof -
  have r1: "getIndex_accessor (failing_at 1) ''v1'' ''en-US'' ''Doc'' = Inl 404"
    by (simp add: failing_at_def)
  have r2: "getIndex_accessor (failing_at 2) ''v1'' ''en-US'' ''Doc'' = Inr sample_index"
    "getIndex_accessor (failing_at 2) ''v1'' ''en-US'' ''Guide'' = Inl 500"
    by (simp_all add: failing_at_def)
  have r3: "getIndex_accessor (failing_at 3) ''v1'' ''en-US'' ''Doc'' = Inr sample_index"
    "getIndex_accessor (failing_at 3) ''v1'' ''en-US'' ''Guide'' = Inr []"
    "getRecommendedItems_accessor (failing_at 3) ''en-US'' ''Doc'' = Inl 404"
    by (simp_all add: failing_at_def)
  have r4: "getIndex_accessor (failing_at 4) ''v1'' ''en-US'' ''Doc'' = Inr sample_index"
    "getIndex_accessor (failing_at 4) ''v1'' ''en-US'' ''Guide'' = Inr []"
    "getRecommendedItems_accessor (failing_at 4) ''en-US'' ''Doc'' = Inr []"
    "getRecommendedItems_accessor (failing_at 4) ''en-US'' ''Guide'' = Inl 500"
    by (simp_all add: failing_at_def)
  have r0: "getIndex_accessor (failing_at 0) ''v1'' ''en-US'' ''Doc'' = Inr sample_index"
    "getIndex_accessor (failing_at 0) ''v1'' ''en-US'' ''Guide'' = Inr []"
    "getRecommendedItems_accessor (failing_at 0) ''en-US'' ''Doc'' = Inr []"
    "getRecommendedItems_accessor (failing_at 0) ''en-US'' ''Guide'' = Inr [sample_item]"
    by (simp_all add: failing_at_def)
  note t = refresh_route_stops_at_first_status
  from t [of "failing_at 1" "''v1''" "''en-US''" 404] r1
  have a1: "refresh_route (failing_at 1) ''v1'' ''en-US''
      = (SendStatus 404, [GetIndexCall ''v1'' ''en-US'' ''Doc''])"
    by simp
  from t [of "failing_at 2" "''v1''" "''en-US''" 500 sample_index] r2
  have a2: "refresh_route (failing_at 2) ''v1'' ''en-US''
      = (SendStatus 500,
         [GetIndexCall ''v1'' ''en-US'' ''Doc'', GetIndexCall ''v1'' ''en-US'' ''Guide''])"
    by simp
  from t [of "failing_at 3" "''v1''" "''en-US''" 404 sample_index "[]"] r3
  have a3: "refresh_route (failing_at 3) ''v1'' ''en-US''
      = (SendStatus 404,
         [GetIndexCall ''v1'' ''en-US'' ''Doc'', GetIndexCall ''v1'' ''en-US'' ''Guide'',
          GetRecommendedItemsCall ''en-US'' ''Doc''])"
    by simp
  from t [of "failing_at 4" "''v1''" "''en-US''" 500 sample_index "[]" "[]"] r4
  have a4: "refresh_route (failing_at 4) ''v1'' ''en-US''
      = (SendStatus 500,
         [GetIndexCall ''v1'' ''en-US'' ''Doc'', GetIndexCall ''v1'' ''en-US'' ''Guide'',
          GetRecommendedItemsCall ''en-US'' ''Doc'',
          GetRecommendedItemsCall ''en-US'' ''Guide''])"
    by simp
  from t [of "failing_at 0" "''v1''" "''en-US''" 0 sample_index "[]" "[]" "[sample_item]"] r0
  have a0: "refresh_route (failing_at 0) ''v1'' ''en-US''
      = (Json \<lparr>data_docIndex = sample_index, data_guideIndex = [],
           data_recommendedDocItems = push_placeholder [],
           data_recommendedGuideItems = push_placeholder [sample_item]\<rparr>,
         [GetIndexCall ''v1'' ''en-US'' ''Doc'', GetIndexCall ''v1'' ''en-US'' ''Guide'',
          GetRecommendedItemsCall ''en-US'' ''Doc'',
          GetRecommendedItemsCall ''en-US'' ''Guide''])"
    by simp
  from r1 r2 r3 r4 r0 a1 a2 a3 a4 a0 show ?thesis by simp
qed

section \<open>Properties of the deploy listener\<close>

text \<open>
  C6, as stated, fails on a message whose content is not JSON text: \<open>JSON.parse\<close>
  throws before \<open>channel.ack\<close> is reached, so the message is not acknowledged.
\<close>

theorem consume_malformed_counterexample:
  "\<not> acked (consume ''linux'' (Some malformed_message)) \<and>
   thrown (consume ''linux'' (Some malformed_message)) = Some SyntaxError"
  by (simp add: consume_def malformed_message_def)

text \<open>
  C6, amended. For every delivered message whose content parses as JSON, the consumer
  acknowledges the message, and it runs the deployment script if and only if the
  \<open>task\<close> property of the parsed value is the string \<open>Deploy\<close> and the platform is
  \<open>linux\<close>; with any other task the message is acknowledged and no script runs. A
  message whose content does not parse is neither acknowledged nor runs the script.
\<close>

theorem consume_acks_and_deploys:
  "(parsed_content m = Inr messageContent \<longrightarrow>
      acked (consume platform (Some m)) \<and>
      (executed (consume platform (Some m)) \<longleftrightarrow>
         property messageContent ''task'' = Inr (Some (JString ''Deploy'')) \<and>
         platform = ''linux'') \<and>
      (property messageContent ''task'' \<noteq> Inr (Some (JString ''Deploy'')) \<longrightarrow>
         acked (consume platform (Some m)) \<and> \<not> executed (consume platform (Some m)))) \<and>
   (parsed_content m = Inl e \<longrightarrow>
      \<not> acked (consume platform (Some m)) \<and> \<not> executed (consume platform (Some m)))"
  by (auto simp: consume_def split: sum.splits)

theorem consume_acks_and_deploys_witness:
  "parsed_content deploy_message
     = Inr (JObject [(''task'', JString ''Deploy''), (''sender'', JString ''Bot'')]) \<and>
   acked (consume ''linux'' (Some deploy_message)) \<and>
   executed (consume ''linux'' (Some deploy_message)) \<and>
   \<not> executed (consume ''win32'' (Some deploy_message)) \<and>
   property (JObject [(''task'', JString ''Restart''), (''sender'', JString ''Bot'')]) ''task''
     \<noteq> Inr (Some (JString ''Deploy'')) \<and>
   acked (consume ''linux'' (Some restart_message)) \<and>
   \<not> executed (consume ''linux'' (Some restart_message)) \<and>
   parsed_content malformed_message = Inl SyntaxError \<and>
   \<not> executed (consume ''linux'' (Some malformed_message))"
proof -
  have deploy: "parsed_content deploy_message
      = Inr (JObject [(''task'', JString ''Deploy''), (''sender'', JString ''Bot'')])"
    by (simp add: deploy_message_def)
  have restart: "parsed_content restart_message
      = Inr (JObject [(''task'', JString ''Restart''), (''sender'', JString ''Bot'')])"
    by (simp add: restart_message_def)
  have other: "property (JObject [(''task'', JString ''Restart''), (''sender'', JString ''Bot'')])
      ''task'' \<noteq> Inr (Some (JString ''Deploy''))"
    by simp
  have malformed: "parsed_content malformed_message = Inl SyntaxError"
    by (simp add: malformed_message_def)
  note t = consume_acks_and_deploys
  from t [of deploy_message
      "JObject [(''task'', JString ''Deploy''), (''sender'', JString ''Bot'')]" "''linux''"] deploy
  have a: "acked (consume ''linux'' (Some deploy_message)) \<and>
      executed (consume ''linux'' (Some deploy_message))"
    by simp
  from t [of deploy_message
      "JObject [(''task'', JString ''Deploy''), (''sender'', JString ''Bot'')]" "''win32''"] deploy
  have b: "\<not> executed (consume ''win32'' (Some deploy_message))"
    by simp
  from t [of restart_message
      "JObject [(''task'', JString ''Restart''), (''sender'', JString ''Bot'')]" "''linux''"]
    restart other
  have c: "acked (consume ''linux'' (Some restart_message)) \<and>
      \<not> executed (consume ''linux'' (Some restart_message))"
    by simp
  from t [of malformed_message _ "''linux''" SyntaxError] malformed
  have d: "\<not> executed (consume ''linux'' (Some malformed_message))"
    by simp
  from deploy other malformed a b c d show ?thesis by simp
qed

section \<open>Properties of the fetch helpers\<close>

text \<open>
  C8. Among the outcomes that are not an \<open>ok\<close> response, \<open>fetchDocumentationIndex\<close>
  returns the empty index as data exactly for a response of status 404, and \<open>false\<close>
  for every other response and for a rejected \<open>fetch\<close>; \<open>fetchDocumentationCategories\<close>
  does the same with the empty category list. A rejected \<open>response.json()\<close> on an \<open>ok\<close>
  response is caught and gives \<open>false\<close> as well, and an \<open>ok\<close> response that parses
  gives its own body. A response of status 404 is never \<open>ok\<close>, so empty data and
  \<open>false\<close> are never confused.
\<close>

theorem not_found_is_empty_success:
  "(fetch (base @ ''/getIndex/'' @ vers @ ''/'' @ lang) = Resolved r \<longrightarrow>
      (status r = 404 \<longrightarrow>
         fetchDocumentationIndex base fetch vers lang = Data \<lparr>index = []\<rparr>) \<and>
      (\<not> ok r \<and> status r \<noteq> 404 \<longrightarrow>
         fetchDocumentationIndex base fetch vers lang = Sentinel False) \<and>
      (\<not> ok r \<longrightarrow>
         (fetchDocumentationIndex base fetch vers lang = Data \<lparr>index = []\<rparr>
            \<longleftrightarrow> status r = 404)) \<and>
      (ok r \<and> json_body r = None \<longrightarrow>
         fetchDocumentationIndex base fetch vers lang = Sentinel False) \<and>
      (ok r \<and> json_body r = Some d \<longrightarrow>
         fetchDocumentationIndex base fetch vers lang = Data d)) \<and>
   (fetch (base @ ''/getIndex/'' @ vers @ ''/'' @ lang) = Rejected \<longrightarrow>
      fetchDocumentationIndex base fetch vers lang = Sentinel False) \<and>
   (fetch' (base @ ''/getCategories/'' @ vers @ ''/'' @ lang) = Resolved r' \<longrightarrow>
      (status r' = 404 \<longrightarrow>
         fetchDocumentationCategories base fetch' vers lang = Data \<lparr>categories = []\<rparr>) \<and>
      (\<not> ok r' \<and> status r' \<noteq> 404 \<longrightarrow>
         fetchDocumentationCategories base fetch' vers lang = Sentinel False) \<and>
      (\<not> ok r' \<longrightarrow>
         (fetchDocumentationCategories base fetch' vers lang = Data \<lparr>categories = []\<rparr>
            \<longleftrightarrow> status r' = 404)) \<and>
      (ok r' \<and> json_body r' = None \<longrightarrow>
         fetchDocumentationCategories base fetch' vers lang = Sentinel False) \<and>
      (ok r' \<and> json_body r' = Some d' \<longrightarrow>
         fetchDocumentationCategories base fetch' vers lang = Data d')) \<and>
   (fetch' (base @ ''/getCategories/'' @ vers @ ''/'' @ lang) = Rejected \<longrightarrow>
      fetchDocumentationCategories base fetch' vers lang = Sentinel False)"
proof -
  have idx: "fetchDocumentationIndex base fetch vers lang =
      (if ok r then (case json_body r of None \<Rightarrow> Sentinel False | Some d \<Rightarrow> Data d)
       else if status r = 404 then Data \<lparr>index = []\<rparr> else Sentinel False)"
    if "fetch (base @ ''/getIndex/'' @ vers @ ''/'' @ lang) = Resolved r"
    using that by (simp add: fetchDocumentationIndex_def)
  have cat: "fetchDocumentationCategories base fetch' vers lang =
      (if ok r' then (case json_body r' of None \<Rightarrow> Sentinel False | Some d \<Rightarrow> Data d)
       else if status r' = 404 then Data \<lparr>categories = []\<rparr> else Sentinel False)"
    if "fetch' (base @ ''/getCategories/'' @ vers @ ''/'' @ lang) = Resolved r'"
    using that by (simp add: fetchDocumentationCategories_def)
  have idx_rejected: "fetchDocumentationIndex base fetch vers lang = Sentinel False"
    if "fetch (base @ ''/getIndex/'' @ vers @ ''/'' @ lang) = Rejected"
    using that by (simp add: fetchDocumentationIndex_def)
  have cat_rejected: "fetchDocumentationCategories base fetch' vers lang = Sentinel False"
    if "fetch' (base @ ''/getCategories/'' @ vers @ ''/'' @ lang) = Rejected"
    using that by (simp add: fetchDocumentationCategories_def)
  have not_ok: "\<not> ok x" if "status x = 404" for x :: "'x http_response"
    using that by (simp add: ok_def)
  show ?thesis
    using idx cat idx_rejected cat_rejected not_ok [of r] not_ok [of r']
    by (auto simp: ok_def)
qed

theorem not_found_is_empty_success_witness:
  "sample_network fresh_index (''https://docs'' @ ''/getIndex/'' @ ''v1'' @ ''/'' @ ''en-US'')
     = Resolved \<lparr>status = 404, json_body = None\<rparr> \<and>
   \<not> ok \<lparr>status = 404, json_body = None :: documentation_index_response option\<rparr> \<and>
   fetchDocumentationIndex ''https://docs'' (sample_network fresh_index) ''v1'' ''en-US''
     = Data \<lparr>index = []\<rparr> \<and>
   fetchDocumentationCategories ''https://docs'' (sample_network \<lparr>categories = []\<rparr>)
     ''v1'' ''en-US'' = Data \<lparr>categories = []\<rparr> \<and>
   fetchDocumentationIndex ''https://docs'' (sample_network fresh_index) ''v2'' ''en-US''
     = Sentinel False \<and>
   fetchDocumentationCategories ''https://docs'' (sample_network \<lparr>categories = []\<rparr>)
     ''v2'' ''en-US'' = Sentinel False \<and>
   fetchDocumentationIndex ''https://docs'' (sample_network fresh_index) ''v3'' ''en-US''
     = Data fresh_index \<and>
   fetchDocumentationIndex ''https://docs'' (sample_network fresh_index) ''v4'' ''en-US''
     = Sentinel False \<and>
   sample_network fresh_index (''https://docs'' @ ''/getIndex/'' @ ''v9'' @ ''/'' @ ''en-US'')
     = Rejected \<and>
   fetchDocumentationIndex ''https://docs'' (sample_network fresh_index) ''v9'' ''en-US''
     = Sentinel False \<and>
   fetchDocumentationCategories ''https://docs'' (sample_network \<lparr>categories = []\<rparr>)
     ''v9'' ''en-US'' = Sentinel False"
proof -
  let ?i = "sample_network fresh_index"
  let ?c = "sample_network \<lparr>categories = []\<rparr>"
  have i1: "?i (''https://docs'' @ ''/getIndex/'' @ ''v1'' @ ''/'' @ ''en-US'')
      = Resolved \<lparr>status = 404, json_body = None\<rparr>"
    and i2: "?i (''https://docs'' @ ''/getIndex/'' @ ''v2'' @ ''/'' @ ''en-US'')
      = Resolved \<lparr>status = 500, json_body = None\<rparr>"
    and i3: "?i (''https://docs'' @ ''/getIndex/'' @ ''v3'' @ ''/'' @ ''en-US'')
      = Resolved \<lparr>status = 200, json_body = Some fresh_index\<rparr>"
    and i4: "?i (''https://docs'' @ ''/getIndex/'' @ ''v4'' @ ''/'' @ ''en-US'')
      = Resolved \<lparr>status = 200, json_body = None\<rparr>"
    and i9: "?i (''https://docs'' @ ''/getIndex/'' @ ''v9'' @ ''/'' @ ''en-US'') = Rejected"
    by (simp_all add: sample_network_def)
  have c1: "?c (''https://docs'' @ ''/getCategories/'' @ ''v1'' @ ''/'' @ ''en-US'')
      = Resolved \<lparr>status = 404, json_body = None\<rparr>"
    and c2: "?c (''https://docs'' @ ''/getCategories/'' @ ''v2'' @ ''/'' @ ''en-US'')
      = Resolved \<lparr>status = 500, json_body = None\<rparr>"
    and c3: "?c (''https://docs'' @ ''/getCategories/'' @ ''v3'' @ ''/'' @ ''en-US'')
      = Resolved \<lparr>status = 200, json_body = Some \<lparr>categories = []\<rparr>\<rparr>"
    and c4: "?c (''https://docs'' @ ''/getCategories/'' @ ''v4'' @ ''/'' @ ''en-US'')
      = Resolved \<lparr>status = 200, json_body = None\<rparr>"
    and c9: "?c (''https://docs'' @ ''/getCategories/'' @ ''v9'' @ ''/'' @ ''en-US'') = Rejected"
    by (simp_all add: sample_network_def)
  have gone: "\<not> ok \<lparr>status = 404, json_body = None :: documentation_index_response option\<rparr>"
    by (simp add: ok_def)
  note t = not_found_is_empty_success
  from t [of ?i "''https://docs''" "''v1''" "''en-US''" _ _ ?c] i1 c1
  have a1: "fetchDocumentationIndex ''https://docs'' ?i ''v1'' ''en-US'' = Data \<lparr>index = []\<rparr> \<and>
      fetchDocumentationCategories ''https://docs'' ?c ''v1'' ''en-US''
        = Data \<lparr>categories = []\<rparr>"
    by simp
  from t [of ?i "''https://docs''" "''v2''" "''en-US''" _ _ ?c] i2 c2
  have a2: "fetchDocumentationIndex ''https://docs'' ?i ''v2'' ''en-US'' = Sentinel False \<and>
      fetchDocumentationCategories ''https://docs'' ?c ''v2'' ''en-US'' = Sentinel False"
    by (simp add: ok_def)
  from t [of ?i "''https://docs''" "''v3''" "''en-US''" _ fresh_index ?c _ "\<lparr>categories = []\<rparr>"]
    i3 c3
  have a3: "fetchDocumentationIndex ''https://docs'' ?i ''v3'' ''en-US'' = Data fresh_index"
    by (simp add: ok_def)
  from t [of ?i "''https://docs''" "''v4''" "''en-US''" _ _ ?c] i4 c4
  have a4: "fetchDocumentationIndex ''https://docs'' ?i ''v4'' ''en-US'' = Sentinel False"
    by (simp add: ok_def)
  from t [of ?i "''https://docs''" "''v9''" "''en-US''" _ _ ?c] i9 c9
  have a9: "fetchDocumentationIndex ''https://docs'' ?i ''v9'' ''en-US'' = Sentinel False \<and>
      fetchDocumentationCategories ''https://docs'' ?c ''v9'' ''en-US'' = Sentinel False"
    by simp
  from i1 i9 gone a1 a2 a3 a4 a9 show ?thesis by simp
qed

end
